theory Spec2Isabelle
  imports Complex_Main "HOL-Library.AList" "HOL-Library.List_Lexorder" "HOL-Library.Char_ord"
begin

section \<open>Strings of the source\<close>

text \<open>
  The source file app.py writes its labels, dictionary keys and messages in Chinese. A
  \<^typ>\<open>string\<close> is a list of bytes, so each such literal is given by its UTF-8 encoding.
  No property below depends on the length of a string.
\<close>

text \<open>The three return values of \<^verbatim>\<open>classify_sentiment\<close> (app.py lines 23, 25, 26).\<close>

definition POSITIVE :: string where
  "POSITIVE = [CHR 0xE6, CHR 0xAD, CHR 0xA3, CHR 0xE9, CHR 0x9D, CHR 0xA2]"

definition NEGATIVE :: string where
  "NEGATIVE = [CHR 0xE8, CHR 0xB2, CHR 0xA0, CHR 0xE9, CHR 0x9D, CHR 0xA2]"

definition NEUTRAL :: string where
  "NEUTRAL = [CHR 0xE4, CHR 0xB8, CHR 0xAD, CHR 0xE6, CHR 0x80, CHR 0xA7]"

text \<open>The default of the \<^verbatim>\<open>keyword\<close> query parameter (line 55) and of \<^verbatim>\<open>logic\<close> (line 56).\<close>

definition KEYWORD_DEFAULT :: string where
  "KEYWORD_DEFAULT = [CHR 0xE5, CHR 0x8F, CHR 0xB0, CHR 0xE7, CHR 0x81, CHR 0xA3]"

definition LOGIC_DEFAULT :: string where
  "LOGIC_DEFAULT = ''OR''"

text \<open>The keys of an article dictionary that the handler reads (lines 74, 80) and writes (line 75).\<close>

definition TITLE_KEY :: string where
  "TITLE_KEY = [CHR 0xE6, CHR 0xA8, CHR 0x99, CHR 0xE9, CHR 0xA1, CHR 0x8C]"

definition SOURCE_KEY :: string where
  "SOURCE_KEY = [CHR 0xE4, CHR 0xBE, CHR 0x86, CHR 0xE6, CHR 0xBA, CHR 0x90]"

definition SENTIMENT_KEY :: string where
  "SENTIMENT_KEY = [CHR 0xE6, CHR 0x83, CHR 0x85, CHR 0xE6, CHR 0x84, CHR 0x9F]"

text \<open>The error message of the export handler's validation (line 108).\<close>

definition INVALID_SELECTION :: string where
  "INVALID_SELECTION =
     [CHR 0xE6, CHR 0xB2, CHR 0x92, CHR 0xE6, CHR 0x9C, CHR 0x89, CHR 0xE6, CHR 0x8F, CHR 0x90,
      CHR 0xE4, CHR 0xBE, CHR 0x9B, CHR 0xE9, CHR 0x81, CHR 0xB8, CHR 0xE4, CHR 0xB8, CHR 0xAD,
      CHR 0xE7, CHR 0x9A, CHR 0x84, CHR 0xE6, CHR 0x96, CHR 0xB0, CHR 0xE8, CHR 0x81, CHR 0x9E,
      CHR 0xE6, CHR 0x88, CHR 0x96, CHR 0xE6, CHR 0xA0, CHR 0xBC, CHR 0xE5, CHR 0xBC, CHR 0x8F,
      CHR 0xE9, CHR 0x8C, CHR 0xAF, CHR 0xE8, CHR 0xAA, CHR 0xA4]"

text \<open>
  The body of the 404 answer of \<^verbatim>\<open>index\<close> (line 148): a Chinese sentence saying that the
  frontend files are not built yet, the note \<^verbatim>\<open>(frontend/dist not found)\<close>, and the request
  to run \<^verbatim>\<open>npm run build\<close> in the directory \<^verbatim>\<open>frontend\<close>.
\<close>

definition NOT_BUILT_MESSAGE :: string where
  "NOT_BUILT_MESSAGE =
     [CHR 0xE5, CHR 0x89, CHR 0x8D, CHR 0xE7, CHR 0xAB, CHR 0xAF, CHR 0xE6, CHR 0xAA, CHR 0x94,
      CHR 0xE6, CHR 0xA1, CHR 0x88, CHR 0xE5, CHR 0xB0, CHR 0x9A, CHR 0xE6, CHR 0x9C, CHR 0xAA,
      CHR 0xE5, CHR 0xBB, CHR 0xBA, CHR 0xE7, CHR 0xBD, CHR 0xAE]
     @ '' (frontend/dist not found)''
     @ [CHR 0xE3, CHR 0x80, CHR 0x82, CHR 0xE8, CHR 0xAB, CHR 0x8B, CHR 0xE5, CHR 0x9C, CHR 0xA8,
        CHR 0x20, CHR 0x27] @ ''frontend'' @ [CHR 0x27, CHR 0x20]
     @ [CHR 0xE7, CHR 0x9B, CHR 0xAE, CHR 0xE9, CHR 0x8C, CHR 0x84, CHR 0xE4, CHR 0xB8, CHR 0x8B,
        CHR 0xE5, CHR 0x9F, CHR 0xB7, CHR 0xE8, CHR 0xA1, CHR 0x8C, CHR 0x20, CHR 0x27]
     @ ''npm run build'' @ [CHR 0x27, CHR 0xE3, CHR 0x80, CHR 0x82]"

definition XLSX_MIMETYPE :: string where
  "XLSX_MIMETYPE = ''application/vnd.openxmlformats-officedocument.spreadsheetml.sheet''"

section \<open>The sentiment classifier\<close>

text \<open>
  \<^verbatim>\<open>classify_sentiment\<close> (lines 16 to 26). The score is a number; it is modelled as a
  \<^typ>\<open>real\<close>, and the two literals of the source as the decimal fractions they denote.
\<close>

definition classify_sentiment :: "real \<Rightarrow> string" where
  "classify_sentiment score =
     (if score > 65 / 100 then POSITIVE
      else if score < 35 / 100 then NEGATIVE
      else NEUTRAL)"

section \<open>Python values and exceptions\<close>

text \<open>
  An exception that is an instance of \<^verbatim>\<open>Exception\<close>, which is what the two
  \<^verbatim>\<open>except Exception as e\<close> clauses catch. \<open>KeyError\<close> comes from subscripting a
  dictionary, \<open>OverflowError\<close> from date arithmetic, and \<open>Raised\<close> is any exception raised
  inside a collaborator (the RSS fetcher, the sentiment scorer, the date parser, the request
  decoder, the spreadsheet writer), carrying the text that \<^verbatim>\<open>str(e)\<close> gives.
\<close>

datatype exn = KeyError string | OverflowError string | Raised string

text \<open>\<^verbatim>\<open>str(e)\<close>: for a \<open>KeyError\<close> it is the key between single quotes.\<close>

fun str_exn :: "exn \<Rightarrow> string" where
  "str_exn (KeyError k) = [CHR 0x27] @ k @ [CHR 0x27]"
| "str_exn (OverflowError m) = m"
| "str_exn (Raised m) = m"

text \<open>
  A dictionary with string keys keeps its insertion order: an association list with distinct
  keys. \<^verbatim>\<open>d[k]\<close> raises \<open>KeyError\<close> on a missing key; \<^verbatim>\<open>d[k] = v\<close> replaces the value in place
  or appends the new key.
\<close>

type_synonym 'v dict = "(string \<times> 'v) list"

definition getitem :: "'v dict \<Rightarrow> string \<Rightarrow> exn + 'v" where
  "getitem d k = (case map_of d k of None \<Rightarrow> Inl (KeyError k) | Some v \<Rightarrow> Inr v)"

definition setitem :: "'v dict \<Rightarrow> string \<Rightarrow> 'v \<Rightarrow> 'v dict" where
  "setitem d k v = AList.update k v d"

text \<open>
  \<^verbatim>\<open>dict(pairs)\<close>: the pairs are stored one after the other (a later pair with the same key
  overwrites the earlier value).
\<close>

definition dict_of_pairs :: "(string \<times> 'v) list \<Rightarrow> 'v dict" where
  "dict_of_pairs ps = foldl (\<lambda>d (k, v). setitem d k v) [] ps"

text \<open>A decoded JSON value, as \<^verbatim>\<open>request.get_json()\<close> returns it; \<open>JNull\<close> is \<^verbatim>\<open>None\<close>.\<close>

datatype json =
    JNull
  | JBool bool
  | JInt int
  | JFloat real
  | JString string
  | JArray "json list"
  | JObject "(string \<times> json) list"

text \<open>Python's truth value of such a value (what \<^verbatim>\<open>not selected_news\<close> negates).\<close>

fun truthy :: "json \<Rightarrow> bool" where
  "truthy JNull = False"
| "truthy (JBool b) = b"
| "truthy (JInt i) = (i \<noteq> 0)"
| "truthy (JFloat r) = (r \<noteq> 0)"
| "truthy (JString s) = (s \<noteq> [])"
| "truthy (JArray xs) = (xs \<noteq> [])"
| "truthy (JObject kvs) = (kvs \<noteq> [])"

text \<open>\<^verbatim>\<open>isinstance(v, list)\<close>.\<close>

fun isinstance_list :: "json \<Rightarrow> bool" where
  "isinstance_list (JArray xs) = True"
| "isinstance_list v = False"

section \<open>Dates\<close>

text \<open>
  A \<^verbatim>\<open>datetime.date\<close> is modelled by its proleptic Gregorian ordinal
  (\<^verbatim>\<open>date.toordinal()\<close>): day 1 is 0001-01-01 and the last date, 9999-12-31, is day 3652059.
  Subtracting a \<^verbatim>\<open>timedelta\<close> of whole days raises \<open>OverflowError\<close> when the result leaves
  that range.
\<close>

type_synonym date = int

definition MINORDINAL :: int where
  "MINORDINAL = 1"

definition MAXORDINAL :: int where
  "MAXORDINAL = 3652059"

definition date_sub_days :: "date \<Rightarrow> int \<Rightarrow> exn + date" where
  "date_sub_days d n =
     (if MINORDINAL \<le> d - n \<and> d - n \<le> MAXORDINAL then Inr (d - n)
      else Inl (OverflowError ''date value out of range''))"

text \<open>
  The fields of \<^verbatim>\<open>datetime.now()\<close> that \<^verbatim>\<open>strftime('%Y%m%d')\<close> reads.
\<close>

record datetime =
  year :: nat
  month :: nat
  day :: nat

definition digit_char :: "nat \<Rightarrow> char" where
  "digit_char n = ''0123456789'' ! (n mod 10)"

fun str_nat :: "nat \<Rightarrow> string" where
  "str_nat n = (if n < 10 then [digit_char n] else str_nat (n div 10) @ [digit_char (n mod 10)])"

text \<open>A decimal number padded with zeros on the left up to a width, as \<^verbatim>\<open>%Y\<close>, \<^verbatim>\<open>%m\<close>, \<^verbatim>\<open>%d\<close> print it.\<close>

definition zero_pad :: "nat \<Rightarrow> nat \<Rightarrow> string" where
  "zero_pad w n = replicate (w - length (str_nat n)) (CHR ''0'') @ str_nat n"

definition strftime_Ymd :: "datetime \<Rightarrow> string" where
  "strftime_Ymd t = zero_pad 4 (year t) @ zero_pad 2 (month t) @ zero_pad 2 (day t)"

section \<open>The environment of the handlers\<close>

text \<open>
  An article is the dictionary the RSS fetcher returns for one news item; its values are
  taken to be strings.
\<close>

type_synonym article = "string dict"

text \<open>
  What a handler reads from outside app.py, at the moment of the call: the clock
  (\<^verbatim>\<open>date.today()\<close>, \<^verbatim>\<open>datetime.now()\<close>), the file system (\<^verbatim>\<open>os.path.exists\<close>), the directory of
  app.py, and the library functions it calls, each returning a value or raising:
  \<^verbatim>\<open>datetime.strptime(s, "%Y-%m-%d").date()\<close>, \<^verbatim>\<open>fetch_rss_news\<close> of multithread_fetcher,
  \<^verbatim>\<open>SnowNLP(text).sentiments\<close>, and \<^verbatim>\<open>pd.DataFrame(rows).to_excel(...)\<close> writing into a buffer.
\<close>

record env =
  today :: date
  now :: datetime
  strptime_date :: "string \<Rightarrow> exn + date"
  fetch_rss_news :: "string \<Rightarrow> date \<Rightarrow> date \<Rightarrow> string \<Rightarrow> exn + article list"
  sentiments :: "string \<Rightarrow> exn + real"
  to_excel :: "json \<Rightarrow> exn + string"
  path_exists :: "string \<Rightarrow> bool"
  app_dir :: string

text \<open>\<^verbatim>\<open>request.args\<close>: the query parameters; \<^verbatim>\<open>args.get(key, default)\<close>.\<close>

type_synonym query_args = "string \<rightharpoonup> string"

definition args_get :: "query_args \<Rightarrow> string \<Rightarrow> string \<Rightarrow> string" where
  "args_get args k dflt = (case args k of None \<Rightarrow> dflt | Some v \<Rightarrow> v)"

text \<open>
  The answers of the two API handlers. \<open>NewsResult\<close> holds the three computed entries of
  the dictionary \<^verbatim>\<open>{"success": True, "count": .., "data": .., "stats": ..}\<close> that line 85
  hands to \<^verbatim>\<open>jsonify\<close>, each dictionary in its insertion order; \<open>ErrorResult\<close> is
  \<^verbatim>\<open>{"success": False, "error": ..}\<close> with the status beside it; \<open>SendFile\<close> is
  \<^verbatim>\<open>send_file(output, mimetype=.., as_attachment=.., download_name=..)\<close>.
\<close>

datatype response =
    NewsResult (count: nat) (data: "article list") (stats: "nat dict")
  | ErrorResult (error: string) (status: nat)
  | SendFile (body: string) (mimetype: string) (as_attachment: bool) (download_name: string)

text \<open>
  The HTTP status: the one written beside the error object; 200 for a response returned
  with no status.
\<close>

fun status_code :: "response \<Rightarrow> nat" where
  "status_code (NewsResult c d s) = 200"
| "status_code (ErrorResult e st) = st"
| "status_code (SendFile b m a n) = 200"


text \<open>The answers of \<^verbatim>\<open>index\<close>: a text with its status, or \<^verbatim>\<open>send_from_directory(dir, name)\<close>.\<close>

datatype page = Text string nat | SendFromDirectory string string

section \<open>The news query handler\<close>

text \<open>
  Lines 61 to 66. The parsed dates are used when both strings are given and not empty
  (\<^verbatim>\<open>if start_date_str and end_date_str\<close>); in every other case the window is the last 7 days.
\<close>

definition default_window :: "env \<Rightarrow> exn + (date \<times> date)" where
  "default_window e =
     (let end_date = today e in
      case date_sub_days end_date 7 of
        Inl x \<Rightarrow> Inl x
      | Inr start_date \<Rightarrow> Inr (start_date, end_date))"

definition parsed_window :: "env \<Rightarrow> string \<Rightarrow> string \<Rightarrow> exn + (date \<times> date)" where
  "parsed_window e start_date_str end_date_str =
     (case strptime_date e start_date_str of
        Inl x \<Rightarrow> Inl x
      | Inr start_date \<Rightarrow>
          (case strptime_date e end_date_str of
             Inl x \<Rightarrow> Inl x
           | Inr end_date \<Rightarrow> Inr (start_date, end_date)))"

fun date_window :: "env \<Rightarrow> string option \<Rightarrow> string option \<Rightarrow> exn + (date \<times> date)" where
  "date_window e (Some s) (Some t) =
     (if s \<noteq> [] \<and> t \<noteq> [] then parsed_window e s t else default_window e)"
| "date_window e start_date_str end_date_str = default_window e"

text \<open>
  Lines 55 to 69: the four arguments of the call of \<^verbatim>\<open>fetch_rss_news\<close>, or the exception
  raised before the call.
\<close>

definition fetch_call :: "env \<Rightarrow> query_args \<Rightarrow> exn + (string \<times> date \<times> date \<times> string)" where
  "fetch_call e args =
     (let keyword = args_get args ''keyword'' KEYWORD_DEFAULT;
          logic = args_get args ''logic'' LOGIC_DEFAULT
      in case date_window e (args ''start_date'') (args ''end_date'') of
           Inl x \<Rightarrow> Inl x
         | Inr (start_date, end_date) \<Rightarrow> Inr (keyword, start_date, end_date, logic))"

text \<open>
  Lines 72 to 75: each item gets the label of its title's score under the sentiment key;
  the first exception ends the loop.
\<close>

fun annotate :: "env \<Rightarrow> article list \<Rightarrow> exn + article list" where
  "annotate e [] = Inr []"
| "annotate e (item # rest) =
     (case getitem item TITLE_KEY of
        Inl x \<Rightarrow> Inl x
      | Inr title \<Rightarrow>
          (case sentiments e title of
             Inl x \<Rightarrow> Inl x
           | Inr sentiment_score \<Rightarrow>
               (case annotate e rest of
                  Inl x \<Rightarrow> Inl x
                | Inr rest' \<Rightarrow>
                    Inr (setitem item SENTIMENT_KEY (classify_sentiment sentiment_score) # rest'))))"

text \<open>Line 80: \<^verbatim>\<open>item["..."] for item in news_list\<close>, the source of every item.\<close>

fun source_values :: "article list \<Rightarrow> exn + string list" where
  "source_values [] = Inr []"
| "source_values (item # rest) =
     (case getitem item SOURCE_KEY of
        Inl x \<Rightarrow> Inl x
      | Inr s \<Rightarrow>
          (case source_values rest of
             Inl x \<Rightarrow> Inl x
           | Inr ss \<Rightarrow> Inr (s # ss)))"

text \<open>
  \<^verbatim>\<open>collections.Counter\<close>: counting an iterable adds one to the count of each element in
  turn, a new element entering at the end with count 1.
\<close>

definition counter_add :: "nat dict \<Rightarrow> string \<Rightarrow> nat dict" where
  "counter_add c x = setitem c x ((case map_of c x of None \<Rightarrow> 0 | Some n \<Rightarrow> n) + 1)"

definition Counter :: "string list \<Rightarrow> nat dict" where
  "Counter xs = foldl counter_add [] xs"

text \<open>
  \<^verbatim>\<open>Counter.most_common()\<close> is \<^verbatim>\<open>sorted(self.items(), key=itemgetter(1), reverse=True)\<close>. A
  reversed sort is stable: it sorts the reversed list in ascending order, stably, and
  reverses the result.
\<close>

definition most_common :: "nat dict \<Rightarrow> (string \<times> nat) list" where
  "most_common c = rev (sort_key snd (rev c))"

text \<open>Lines 78 to 82.\<close>

definition source_stats :: "article list \<Rightarrow> exn + nat dict" where
  "source_stats news_list =
     (if news_list \<noteq> [] then
        (case source_values news_list of
           Inl x \<Rightarrow> Inl x
         | Inr srcs \<Rightarrow> Inr (dict_of_pairs (most_common (Counter srcs))))
      else Inr [])"

text \<open>Lines 71 to 92: what the handler does with the list the fetcher returned.\<close>

definition news_response :: "env \<Rightarrow> article list \<Rightarrow> exn + response" where
  "news_response e fetched =
     (case annotate e fetched of
        Inl x \<Rightarrow> Inl x
      | Inr news_list \<Rightarrow>
          (case source_stats news_list of
             Inl x \<Rightarrow> Inl x
           | Inr st \<Rightarrow> Inr (NewsResult (length news_list) news_list st)))"

text \<open>The body of the \<^verbatim>\<open>try\<close> (lines 54 to 92).\<close>

definition get_news_try :: "env \<Rightarrow> query_args \<Rightarrow> exn + response" where
  "get_news_try e args =
     (case fetch_call e args of
        Inl x \<Rightarrow> Inl x
      | Inr (keyword, start_date, end_date, logic) \<Rightarrow>
          (case fetch_rss_news e keyword start_date end_date logic of
             Inl x \<Rightarrow> Inl x
           | Inr fetched \<Rightarrow> news_response e fetched))"

text \<open>
  \<^verbatim>\<open>get_news\<close> (lines 48 to 96), up to the argument of \<^verbatim>\<open>jsonify\<close>: the \<^verbatim>\<open>except\<close> clause
  turns every exception into a 500.
\<close>

definition get_news :: "env \<Rightarrow> query_args \<Rightarrow> response" where
  "get_news e args =
     (case get_news_try e args of
        Inl x \<Rightarrow> ErrorResult (str_exn x) 500
      | Inr r \<Rightarrow> r)"

text \<open>
  \<^verbatim>\<open>jsonify\<close> writes the JSON text of the answer. Flask's JSON provider sorts the keys of
  every object it writes (its default \<^verbatim>\<open>sort_keys\<close>, which app.py leaves on): strings
  compare by code point, which is the byte order of their UTF-8 encodings.
\<close>

definition sort_keys :: "'v dict \<Rightarrow> 'v dict" where
  "sort_keys d = sort_key fst d"

text \<open>
  The answer of \<^verbatim>\<open>get_news\<close> as the client reads it: the dictionaries of the payload in
  the order in which the JSON text has them.
\<close>

definition get_news_json :: "env \<Rightarrow> query_args \<Rightarrow> response" where
  "get_news_json e args =
     (case get_news e args of
        NewsResult c d st \<Rightarrow> NewsResult c (map sort_keys d) (sort_keys st)
      | r \<Rightarrow> r)"

section \<open>The export handler\<close>

text \<open>
  The body of the \<^verbatim>\<open>try\<close> (lines 105 to 130). The second argument is the outcome of
  \<^verbatim>\<open>request.get_json()\<close>: the decoded body, or the exception the decoder raised, as it
  does for a request that has no body or whose body is not JSON.
\<close>

definition download_selected_try :: "env \<Rightarrow> exn + json \<Rightarrow> exn + response" where
  "download_selected_try e get_json =
     (case get_json of
        Inl x \<Rightarrow> Inl x
      | Inr selected_news \<Rightarrow>
          if \<not> truthy selected_news \<or> \<not> isinstance_list selected_news then
            Inr (ErrorResult INVALID_SELECTION 400)
          else
            (case to_excel e selected_news of
               Inl x \<Rightarrow> Inl x
             | Inr output \<Rightarrow>
                 Inr (SendFile output XLSX_MIMETYPE True
                        (''selected_news_'' @ strftime_Ymd (now e) @ ''.xlsx''))))"

text \<open>\<^verbatim>\<open>download_selected\<close> (lines 100 to 134).\<close>

definition download_selected :: "env \<Rightarrow> exn + json \<Rightarrow> response" where
  "download_selected e get_json =
     (case download_selected_try e get_json of
        Inl x \<Rightarrow> ErrorResult (str_exn x) 500
      | Inr r \<Rightarrow> r)"

section \<open>The static asset server\<close>

text \<open>
  \<^verbatim>\<open>os.path.join(a, b)\<close> for a relative \<open>b\<close>: a separator is put between the two unless \<open>a\<close>
  is empty or ends with one.
\<close>

definition path_join :: "string \<Rightarrow> string \<Rightarrow> string" where
  "path_join a b = (if a = [] \<or> last a = CHR ''/'' then a @ b else a @ ''/'' @ b)"

text \<open>Lines 33 to 35.\<close>

definition DIST_FOLDER :: "env \<Rightarrow> string" where
  "DIST_FOLDER e = path_join (path_join (app_dir e) ''frontend'') ''dist''"

text \<open>\<^verbatim>\<open>index\<close> (lines 141 to 153).\<close>

definition index :: "env \<Rightarrow> page" where
  "index e =
     (if \<not> path_exists e (DIST_FOLDER e) then Text NOT_BUILT_MESSAGE 404
      else SendFromDirectory (DIST_FOLDER e) ''index.html'')"

section \<open>Measures used to state the properties\<close>

text \<open>The position at which a value first occurs in a list (the length, if it never does).\<close>

definition first_index :: "'a list \<Rightarrow> 'a \<Rightarrow> nat" where
  "first_index xs a = length (takeWhile (\<lambda>y. y \<noteq> a) xs)"

text \<open>How many items of a list have a given source, and where the first of them stands.\<close>

definition count_source :: "article list \<Rightarrow> string \<Rightarrow> nat" where
  "count_source news_list s = length (filter (\<lambda>item. getitem item SOURCE_KEY = Inr s) news_list)"

definition first_seen :: "article list \<Rightarrow> string \<Rightarrow> nat" where
  "first_seen news_list s =
     length (takeWhile (\<lambda>item. getitem item SOURCE_KEY \<noteq> Inr s) news_list)"

text \<open>
  An item of the answer is the fetched item with the label of its title's score stored
  under the sentiment key.
\<close>

definition annotated :: "env \<Rightarrow> article \<Rightarrow> article \<Rightarrow> bool" where
  "annotated e item item' =
     (case getitem item TITLE_KEY of
        Inl x \<Rightarrow> False
      | Inr title \<Rightarrow>
          (case sentiments e title of
             Inl x \<Rightarrow> False
           | Inr sentiment_score \<Rightarrow>
               item' = setitem item SENTIMENT_KEY (classify_sentiment sentiment_score)))"

text \<open>An answer is the error object with a given status.\<close>

definition is_error_object :: "response \<Rightarrow> nat \<Rightarrow> bool" where
  "is_error_object r st = (case r of ErrorResult msg s \<Rightarrow> s = st | _ \<Rightarrow> False)"

text \<open>
  A complete answer of the news query: the fetcher was called and returned a list, the
  answer counts that list, its data are the fetched items in order, each one annotated,
  and its statistics are those of the data.
\<close>

definition complete_news :: "env \<Rightarrow> query_args \<Rightarrow> response \<Rightarrow> bool" where
  "complete_news e args r =
     (case fetch_call e args of
        Inl x \<Rightarrow> False
      | Inr (keyword, start_date, end_date, logic) \<Rightarrow>
          (case fetch_rss_news e keyword start_date end_date logic of
             Inl x \<Rightarrow> False
           | Inr fetched \<Rightarrow>
               (case r of
                  NewsResult c d st \<Rightarrow>
                    c = length fetched \<and> list_all2 (annotated e) fetched d
                    \<and> source_stats d = Inr st
                | _ \<Rightarrow> False)))"

text \<open>A complete answer of the export: the spreadsheet of the whole body, as an attachment.\<close>

definition complete_export :: "env \<Rightarrow> exn + json \<Rightarrow> response \<Rightarrow> bool" where
  "complete_export e get_json r =
     (case get_json of
        Inl x \<Rightarrow> False
      | Inr selected_news \<Rightarrow>
          (case to_excel e selected_news of
             Inl x \<Rightarrow> False
           | Inr output \<Rightarrow>
               r = SendFile output XLSX_MIMETYPE True
                     (''selected_news_'' @ strftime_Ymd (now e) @ ''.xlsx'')))"

section \<open>A concrete environment\<close>

text \<open>
  Five articles from three sources, a scorer that fails on one title, a fetcher that
  returns an article with that title for the keyword \<open>garbled\<close>, and a clock standing at
  2026-11-04 (day 739924).
\<close>

definition example_articles :: "article list" where
  "example_articles =
     [[(SOURCE_KEY, ''CNA''), (TITLE_KEY, ''good news'')],
      [(SOURCE_KEY, ''BBC''), (TITLE_KEY, ''bad news'')],
      [(SOURCE_KEY, ''CNA''), (TITLE_KEY, ''plain news'')],
      [(SOURCE_KEY, ''UDN''), (TITLE_KEY, ''good news'')],
      [(SOURCE_KEY, ''BBC''), (TITLE_KEY, ''plain news'')]]"

definition example_sentiments :: "string \<Rightarrow> exn + real" where
  "example_sentiments title =
     (if title = ''good news'' then Inr 0.9
      else if title = ''bad news'' then Inr 0.1
      else if title = ''garbled'' then Inl (Raised ''cannot score'')
      else Inr 0.5)"

definition example_fetch :: "string \<Rightarrow> date \<Rightarrow> date \<Rightarrow> string \<Rightarrow> exn + article list" where
  "example_fetch keyword start_date end_date logic =
     (if keyword = ''garbled'' then
        Inr [[(SOURCE_KEY, ''CNA''), (TITLE_KEY, ''good news'')],
             [(SOURCE_KEY, ''BBC''), (TITLE_KEY, ''garbled'')]]
      else Inr example_articles)"

definition example_strptime :: "string \<Rightarrow> exn + date" where
  "example_strptime s =
     (if s = ''2024-01-01'' then Inr 738886
      else Inl (Raised ''time data does not match format''))"

definition example_env :: env where
  "example_env =
     \<lparr>today = 739924,
      now = \<lparr>year = 2026, month = 11, day = 4\<rparr>,
      strptime_date = example_strptime,
      fetch_rss_news = example_fetch,
      sentiments = example_sentiments,
      to_excel = (\<lambda>rows. Inr ''PK''),
      path_exists = (\<lambda>p. p = ''/srv/app/frontend/dist''),
      app_dir = ''/srv/app''\<rparr>"

definition example_annotated :: "article list" where
  "example_annotated =
     [[(SOURCE_KEY, ''CNA''), (TITLE_KEY, ''good news''), (SENTIMENT_KEY, POSITIVE)],
      [(SOURCE_KEY, ''BBC''), (TITLE_KEY, ''bad news''), (SENTIMENT_KEY, NEGATIVE)],
      [(SOURCE_KEY, ''CNA''), (TITLE_KEY, ''plain news''), (SENTIMENT_KEY, NEUTRAL)],
      [(SOURCE_KEY, ''UDN''), (TITLE_KEY, ''good news''), (SENTIMENT_KEY, POSITIVE)],
      [(SOURCE_KEY, ''BBC''), (TITLE_KEY, ''plain news''), (SENTIMENT_KEY, NEUTRAL)]]"

text \<open>
  Three more fetchers: one that returns the articles for the window from day 739917 to
  day 739924 only, one that fails and reports the keyword and the logic it was called
  with, and one that returns two articles of one source followed by one of a source that
  comes earlier in the alphabet.
\<close>

definition window_fetch :: "string \<Rightarrow> date \<Rightarrow> date \<Rightarrow> string \<Rightarrow> exn + article list" where
  "window_fetch keyword start_date end_date logic =
     (if start_date = 739917 \<and> end_date = 739924 then Inr example_articles
      else Inl (Raised ''other window''))"

definition echo_fetch :: "string \<Rightarrow> date \<Rightarrow> date \<Rightarrow> string \<Rightarrow> exn + article list" where
  "echo_fetch keyword start_date end_date logic = Inl (Raised (keyword @ '' '' @ logic))"

definition two_source_fetch :: "string \<Rightarrow> date \<Rightarrow> date \<Rightarrow> string \<Rightarrow> exn + article list" where
  "two_source_fetch keyword start_date end_date logic =
     Inr [[(SOURCE_KEY, ''UDN''), (TITLE_KEY, ''good news'')],
          [(SOURCE_KEY, ''UDN''), (TITLE_KEY, ''bad news'')],
          [(SOURCE_KEY, ''BBC''), (TITLE_KEY, ''plain news'')]]"


section \<open>The classifier\<close>

lemma labels_distinct:
  "POSITIVE \<noteq> NEGATIVE" "POSITIVE \<noteq> NEUTRAL" "NEGATIVE \<noteq> NEUTRAL"
  by (simp_all add: POSITIVE_def NEGATIVE_def NEUTRAL_def)

text \<open>
  Claim C1. For every real score, the classifier returns the positive label exactly when
  the score is above 0.65, the negative label exactly when it is below 0.35, and the
  neutral label in every other case; the two boundary scores 0.65 and 0.35 are neutral.
  The labels are the three strings of the source.
\<close>

theorem classify_sentiment_thresholds:
  "(classify_sentiment s = POSITIVE \<longleftrightarrow> s > 0.65)
   \<and> (classify_sentiment s = NEGATIVE \<longleftrightarrow> s < 0.35)
   \<and> (classify_sentiment s = NEUTRAL \<longleftrightarrow> \<not> s > 0.65 \<and> \<not> s < 0.35)
   \<and> classify_sentiment 0.65 = NEUTRAL
   \<and> classify_sentiment 0.35 = NEUTRAL"
  using labels_distinct by (auto simp: classify_sentiment_def)

text \<open>
  Claim C10. The classifier is defined on every real score, also outside the interval from
  0 to 1: its result is always one of the three labels, which are three different strings;
  every score above 1 is positive and every score below 0 is negative.
\<close>

theorem classify_sentiment_total:
  "classify_sentiment s \<in> {POSITIVE, NEUTRAL, NEGATIVE}
   \<and> card {POSITIVE, NEUTRAL, NEGATIVE} = 3
   \<and> (s > 1 \<longrightarrow> classify_sentiment s = POSITIVE)
   \<and> (s < 0 \<longrightarrow> classify_sentiment s = NEGATIVE)"
  using labels_distinct by (auto simp: classify_sentiment_def)

theorem classify_sentiment_total_witness:
  "(2::real) > 1 \<and> classify_sentiment 2 = POSITIVE
   \<and> (- 1::real) < 0 \<and> classify_sentiment (- 1) = NEGATIVE
   \<and> classify_sentiment 0.5 \<in> {POSITIVE, NEUTRAL, NEGATIVE}"
  using classify_sentiment_total[of 2] classify_sentiment_total[of "- 1"]
    classify_sentiment_total[of "0.5"]
  by simp

section \<open>Evaluating the handlers in the concrete environment\<close>

lemma keys_distinct:
  "SENTIMENT_KEY \<noteq> SOURCE_KEY" "SENTIMENT_KEY \<noteq> TITLE_KEY" "TITLE_KEY \<noteq> SOURCE_KEY"
  by (simp_all add: SENTIMENT_KEY_def SOURCE_KEY_def TITLE_KEY_def)

lemma example_env_fields:
  "today example_env = 739924"
  "now example_env = \<lparr>year = 2026, month = 11, day = 4\<rparr>"
  "strptime_date example_env = example_strptime"
  "fetch_rss_news example_env = example_fetch"
  "sentiments example_env = example_sentiments"
  "to_excel example_env = (\<lambda>rows. Inr ''PK'')"
  "path_exists example_env = (\<lambda>p. p = ''/srv/app/frontend/dist'')"
  "app_dir example_env = ''/srv/app''"
  by (simp_all add: example_env_def)

lemmas eval_defs =
  fetch_call_def default_window_def parsed_window_def date_sub_days_def MINORDINAL_def
  MAXORDINAL_def args_get_def LOGIC_DEFAULT_def example_env_fields example_fetch_def
  example_strptime_def example_sentiments_def example_articles_def getitem_def setitem_def
  classify_sentiment_def source_stats_def Counter_def counter_add_def most_common_def
  dict_of_pairs_def keys_distinct keys_distinct[symmetric] KEYWORD_DEFAULT_def
  get_news_def get_news_try_def news_response_def window_fetch_def echo_fetch_def
  two_source_fetch_def

lemma example_fetch_call:
  "fetch_call example_env Map.empty = Inr (KEYWORD_DEFAULT, 739917, 739924, ''OR'')"
  by (simp add: eval_defs)

lemma example_strftime: "strftime_Ymd \<lparr>year = 2026, month = 11, day = 4\<rparr> = ''20261104''"
  by (simp add: strftime_Ymd_def zero_pad_def digit_char_def)

lemma example_strftime_padded:
  "strftime_Ymd \<lparr>year = 987, month = 1, day = 4\<rparr> = ''09870104''"
  by (simp add: strftime_Ymd_def zero_pad_def digit_char_def)

lemma example_get_news_garbled:
  "get_news example_env [''keyword'' \<mapsto> ''garbled''] = ErrorResult ''cannot score'' 500"
  by (simp add: eval_defs)

lemma example_dist_folder: "DIST_FOLDER example_env = ''/srv/app/frontend/dist''"
  by (simp add: DIST_FOLDER_def path_join_def example_env_fields)

lemma example_same_day_window:
  "fetch_call example_env
     [''start_date'' \<mapsto> ''2024-01-01'', ''end_date'' \<mapsto> ''2024-01-01'', ''logic'' \<mapsto> ''AND'']
   = Inr (KEYWORD_DEFAULT, 738886, 738886, ''AND'')"
  by (simp add: eval_defs)

lemma example_get_news:
  "get_news example_env Map.empty =
     NewsResult 5 example_annotated [(''CNA'', 2), (''BBC'', 2), (''UDN'', 1)]"
  by (simp add: eval_defs example_annotated_def)

section \<open>The arguments of the fetch call\<close>

text \<open>
  Claim C2. When the query has no \<open>start_date\<close> or no \<open>end_date\<close> (or neither), the handler
  calls the fetcher with the window from 7 days before today to today, today being the date
  of the clock at the call, and answers with what it makes of the fetcher's outcome for that
  window. The clock's date is a date of the calendar at least 7 days after its first day, so
  the subtraction stays in range.
\<close>

theorem default_window_when_date_absent:
  assumes "args ''start_date'' = None \<or> args ''end_date'' = None"
    and "MINORDINAL + 7 \<le> today e" and "today e \<le> MAXORDINAL"
  shows "fetch_call e args =
           Inr (args_get args ''keyword'' KEYWORD_DEFAULT, today e - 7, today e,
                args_get args ''logic'' LOGIC_DEFAULT)
         \<and> get_news_try e args =
             (case fetch_rss_news e (args_get args ''keyword'' KEYWORD_DEFAULT)
                     (today e - 7) (today e) (args_get args ''logic'' LOGIC_DEFAULT) of
                Inl x \<Rightarrow> Inl x
              | Inr fetched \<Rightarrow> news_response e fetched)
         \<and> get_news e args =
             (case fetch_rss_news e (args_get args ''keyword'' KEYWORD_DEFAULT)
                     (today e - 7) (today e) (args_get args ''logic'' LOGIC_DEFAULT) of
                Inl x \<Rightarrow> ErrorResult (str_exn x) 500
              | Inr fetched \<Rightarrow>
                  (case news_response e fetched of
                     Inl x \<Rightarrow> ErrorResult (str_exn x) 500
                   | Inr r \<Rightarrow> r))"
proof -
  have "date_window e (args ''start_date'') (args ''end_date'') = default_window e"
    using assms(1) by (cases "args ''start_date''"; cases "args ''end_date''") auto
  moreover have "default_window e = Inr (today e - 7, today e)"
    using assms(2,3) by (simp add: default_window_def date_sub_days_def Let_def)
  ultimately have call: "fetch_call e args =
           Inr (args_get args ''keyword'' KEYWORD_DEFAULT, today e - 7, today e,
                args_get args ''logic'' LOGIC_DEFAULT)"
    by (simp add: fetch_call_def)
  then show ?thesis
    by (simp add: get_news_def get_news_try_def split: sum.splits)
qed

theorem default_window_when_date_absent_witness:
  "[''end_date'' \<mapsto> ''2024-01-01''] ''start_date'' = None
   \<and> MINORDINAL + 7 \<le> today example_env \<and> today example_env \<le> MAXORDINAL
   \<and> fetch_call example_env [''end_date'' \<mapsto> ''2024-01-01'']
       = Inr (KEYWORD_DEFAULT, 739917, 739924, ''OR'')
   \<and> get_news (example_env\<lparr>fetch_rss_news := window_fetch\<rparr>) [''end_date'' \<mapsto> ''2024-01-01'']
       = NewsResult 5 example_annotated [(''CNA'', 2), (''BBC'', 2), (''UDN'', 1)]
   \<and> get_news (example_env\<lparr>fetch_rss_news := window_fetch, today := 739925\<rparr>)
         [''end_date'' \<mapsto> ''2024-01-01'']
       = ErrorResult ''other window'' 500"
proof -
  have a: "[''end_date'' \<mapsto> ''2024-01-01''] ''start_date'' = None
           \<or> [''end_date'' \<mapsto> ''2024-01-01''] ''end_date'' = None"
    by simp
  have b: "MINORDINAL + 7 \<le> today example_env" "today example_env \<le> MAXORDINAL"
    by (simp_all add: MINORDINAL_def MAXORDINAL_def example_env_fields)
  have b': "MINORDINAL + 7 \<le> today (example_env\<lparr>fetch_rss_news := window_fetch\<rparr>)"
    "today (example_env\<lparr>fetch_rss_news := window_fetch\<rparr>) \<le> MAXORDINAL"
    by (simp_all add: MINORDINAL_def MAXORDINAL_def example_env_fields)
  have c: "MINORDINAL + 7 \<le> today (example_env\<lparr>fetch_rss_news := window_fetch, today := 739925\<rparr>)"
    "today (example_env\<lparr>fetch_rss_news := window_fetch, today := 739925\<rparr>) \<le> MAXORDINAL"
    by (simp_all add: MINORDINAL_def MAXORDINAL_def)
  have n: "news_response (example_env\<lparr>fetch_rss_news := window_fetch\<rparr>) example_articles
             = Inr (NewsResult 5 example_annotated [(''CNA'', 2), (''BBC'', 2), (''UDN'', 1)])"
    by (simp add: eval_defs example_annotated_def)
  show ?thesis
    using default_window_when_date_absent
            [where args = "[''end_date'' \<mapsto> ''2024-01-01'']" and e = example_env, OF a b]
          default_window_when_date_absent
            [where args = "[''end_date'' \<mapsto> ''2024-01-01'']"
               and e = "example_env\<lparr>fetch_rss_news := window_fetch\<rparr>", OF a b']
          default_window_when_date_absent
            [where args = "[''end_date'' \<mapsto> ''2024-01-01'']"
               and e = "example_env\<lparr>fetch_rss_news := window_fetch, today := 739925\<rparr>",
             OF a c]
          b n
    by (simp add: args_get_def LOGIC_DEFAULT_def example_env_fields window_fetch_def)
qed

text \<open>
  Claim C8, as the source has it. When the query has no \<open>keyword\<close>, the handler calls the
  fetcher with the default of line 55 as keyword, the two Chinese characters for Taiwan (six
  bytes in UTF-8); when it has no \<open>logic\<close>, it calls the fetcher with the logic \<open>OR\<close>. The
  answer is what the handler makes of the fetcher's outcome for these arguments.
\<close>

theorem default_keyword_and_logic:
  "(args ''keyword'' = None \<longrightarrow>
      get_news_try e args =
        (case date_window e (args ''start_date'') (args ''end_date'') of
           Inl x \<Rightarrow> Inl x
         | Inr (start_date, end_date) \<Rightarrow>
             (case fetch_rss_news e [CHR 0xE5, CHR 0x8F, CHR 0xB0, CHR 0xE7, CHR 0x81, CHR 0xA3]
                     start_date end_date (args_get args ''logic'' LOGIC_DEFAULT) of
                Inl x \<Rightarrow> Inl x
              | Inr fetched \<Rightarrow> news_response e fetched)))
   \<and> (args ''logic'' = None \<longrightarrow>
      get_news_try e args =
        (case date_window e (args ''start_date'') (args ''end_date'') of
           Inl x \<Rightarrow> Inl x
         | Inr (start_date, end_date) \<Rightarrow>
             (case fetch_rss_news e (args_get args ''keyword'' KEYWORD_DEFAULT)
                     start_date end_date ''OR'' of
                Inl x \<Rightarrow> Inl x
              | Inr fetched \<Rightarrow> news_response e fetched)))
   \<and> get_news e args =
        (case get_news_try e args of Inl x \<Rightarrow> ErrorResult (str_exn x) 500 | Inr r \<Rightarrow> r)"
  by (auto simp: get_news_def get_news_try_def fetch_call_def args_get_def KEYWORD_DEFAULT_def
      LOGIC_DEFAULT_def split: sum.splits prod.splits)

theorem default_keyword_and_logic_witness:
  "(Map.empty :: query_args) ''keyword'' = None
   \<and> (Map.empty :: query_args) ''logic'' = None
   \<and> get_news_try (example_env\<lparr>fetch_rss_news := echo_fetch\<rparr>) Map.empty =
       Inl (Raised ([CHR 0xE5, CHR 0x8F, CHR 0xB0, CHR 0xE7, CHR 0x81, CHR 0xA3] @ '' OR''))
   \<and> get_news (example_env\<lparr>fetch_rss_news := echo_fetch\<rparr>) Map.empty =
       ErrorResult ([CHR 0xE5, CHR 0x8F, CHR 0xB0, CHR 0xE7, CHR 0x81, CHR 0xA3] @ '' OR'') 500"
proof -
  have w: "date_window (example_env\<lparr>fetch_rss_news := echo_fetch\<rparr>)
             ((Map.empty :: query_args) ''start_date'') ((Map.empty :: query_args) ''end_date'')
           = Inr (739917, 739924)"
    by (simp add: eval_defs)
  show ?thesis
    using default_keyword_and_logic
            [where args = Map.empty and e = "example_env\<lparr>fetch_rss_news := echo_fetch\<rparr>"] w
    by (simp add: echo_fetch_def args_get_def LOGIC_DEFAULT_def)
qed

text \<open>
  The default keyword is not the English word. With a fetcher that reports its arguments
  and a query without parameters, the fetcher is called with the Chinese word, and the
  answer differs from the answer to the query with the keyword \<open>Taiwan\<close>.
\<close>

theorem default_keyword_counterexample:
  "get_news (example_env\<lparr>fetch_rss_news := echo_fetch\<rparr>) Map.empty =
     ErrorResult ([CHR 0xE5, CHR 0x8F, CHR 0xB0, CHR 0xE7, CHR 0x81, CHR 0xA3] @ '' OR'') 500
   \<and> get_news (example_env\<lparr>fetch_rss_news := echo_fetch\<rparr>) [''keyword'' \<mapsto> ''Taiwan''] =
     ErrorResult (''Taiwan'' @ '' OR'') 500
   \<and> get_news (example_env\<lparr>fetch_rss_news := echo_fetch\<rparr>) Map.empty
     \<noteq> get_news (example_env\<lparr>fetch_rss_news := echo_fetch\<rparr>) [''keyword'' \<mapsto> ''Taiwan'']
   \<and> fetch_call (example_env\<lparr>fetch_rss_news := echo_fetch\<rparr>) Map.empty =
     Inr ([CHR 0xE5, CHR 0x8F, CHR 0xB0, CHR 0xE7, CHR 0x81, CHR 0xA3], 739917, 739924, ''OR'')"
  by (simp add: eval_defs)

section \<open>Counting sources\<close>

lemma counter_add_sum: "sum_list (map snd (counter_add c x)) = Suc (sum_list (map snd c))"
  unfolding counter_add_def setitem_def
  by (induction c) auto

lemma counter_fold_sum:
  "sum_list (map snd (foldl counter_add c xs)) = sum_list (map snd c) + length xs"
  by (induction xs arbitrary: c) (simp_all add: counter_add_sum)

lemma Counter_sum: "sum_list (map snd (Counter xs)) = length xs"
  by (simp add: Counter_def counter_fold_sum)

lemma insort_key_sum: "sum_list (map g (insort_key f x xs)) = g x + sum_list (map g xs)"
  for g :: "'a \<Rightarrow> nat"
  by (induction xs) auto

lemma sort_key_sum: "sum_list (map g (sort_key f xs)) = sum_list (map g xs)"
  for g :: "'a \<Rightarrow> nat"
  by (induction xs) (simp_all add: insort_key_sum)

lemma most_common_sum: "sum_list (map snd (most_common c)) = sum_list (map snd c)"
  by (simp add: most_common_def sort_key_sum rev_map[symmetric])

lemma update_fresh: "k \<notin> fst ` set d \<Longrightarrow> AList.update k v d = d @ [(k, v)]"
  by (induction d) auto

lemma dict_fold_distinct:
  "distinct (map fst (acc @ ps)) \<Longrightarrow> foldl (\<lambda>d (k, v). setitem d k v) acc ps = acc @ ps"
proof (induction ps arbitrary: acc)
  case Nil
  then show ?case by simp
next
  case (Cons p ps)
  obtain k v where p: "p = (k, v)" by (cases p)
  from Cons.prems p have fresh: "k \<notin> fst ` set acc" by auto
  have step: "setitem acc k v = acc @ [(k, v)]"
    using fresh by (simp add: setitem_def update_fresh)
  from Cons.prems p have "distinct (map fst ((acc @ [(k, v)]) @ ps))" by simp
  from Cons.IH[OF this] show ?case using p step by simp
qed

lemma dict_of_pairs_distinct: "distinct (map fst ps) \<Longrightarrow> dict_of_pairs ps = ps"
  using dict_fold_distinct[of "[]" ps] by (simp add: dict_of_pairs_def)

lemma counter_add_distinct: "distinct (map fst c) \<Longrightarrow> distinct (map fst (counter_add c x))"
  by (simp add: counter_add_def setitem_def distinct_update)

lemma Counter_snoc: "Counter (xs @ [x]) = counter_add (Counter xs) x"
  by (simp add: Counter_def)

lemma Counter_distinct: "distinct (map fst (Counter xs))"
  by (induction xs rule: rev_induct) (simp_all add: Counter_def counter_add_distinct)

lemma most_common_set: "set (most_common c) = set c"
  by (simp add: most_common_def)

lemma most_common_distinct: "distinct (map fst c) \<Longrightarrow> distinct (map fst (most_common c))"
  by (simp add: most_common_def distinct_map)

lemma counter_add_keys:
  "map fst (counter_add c x) = (if x \<in> set (map fst c) then map fst c else map fst c @ [x])"
  by (simp add: counter_add_def setitem_def update_keys)

lemma Counter_keys_set: "set (map fst (Counter xs)) = set xs"
proof (induction xs rule: rev_induct)
  case Nil
  then show ?case by (simp add: Counter_def)
next
  case (snoc x xs)
  then show ?case by (auto simp: Counter_snoc counter_add_keys)
qed

lemma first_index_snoc_mem: "a \<in> set xs \<Longrightarrow> first_index (xs @ [x]) a = first_index xs a"
  by (simp add: first_index_def takeWhile_append1)

lemma first_index_mem_less: "a \<in> set xs \<Longrightarrow> first_index xs a < length xs"
  unfolding first_index_def
  by (induction xs) auto

lemma first_index_snoc_new: "x \<notin> set xs \<Longrightarrow> first_index (xs @ [x]) x = length xs"
  by (induction xs) (auto simp: first_index_def)

lemma Counter_keys_order:
  "sorted_wrt (\<lambda>a b. first_index xs a < first_index xs b) (map fst (Counter xs))"
proof (induction xs rule: rev_induct)
  case Nil
  then show ?case by (simp add: Counter_def)
next
  case (snoc x xs)
  let ?ks = "map fst (Counter xs)"
  have old: "sorted_wrt (\<lambda>a b. first_index (xs @ [x]) a < first_index (xs @ [x]) b) ?ks"
    using snoc Counter_keys_set[of xs]
    by (auto elim!: sorted_wrt_mono_rel[rotated] simp: first_index_snoc_mem)
  show ?case
  proof (cases "x \<in> set xs")
    case True
    then show ?thesis using old Counter_keys_set[of xs]
      by (simp add: Counter_snoc counter_add_keys)
  next
    case False
    then show ?thesis using old Counter_keys_set[of xs]
      by (auto simp: Counter_snoc counter_add_keys sorted_wrt_append first_index_snoc_new
          first_index_snoc_mem first_index_mem_less)
  qed
qed

lemma insort_key_stable_order:
  "sorted_wrt (\<lambda>a b. f a < f b \<or> (f a = f b \<and> P a b)) ys \<Longrightarrow> \<forall>y\<in>set ys. P x y \<Longrightarrow>
   sorted_wrt (\<lambda>a b. f a < f b \<or> (f a = f b \<and> P a b)) (insort_key f x ys)"
  for f :: "'a \<Rightarrow> nat"
  by (induction ys) (auto simp: set_insort_key)

lemma sort_key_stable_order:
  "sorted_wrt P zs \<Longrightarrow> sorted_wrt (\<lambda>a b. f a < f b \<or> (f a = f b \<and> P a b)) (sort_key f zs)"
  for f :: "'a \<Rightarrow> nat"
  by (induction zs) (auto intro!: insort_key_stable_order)

lemma most_common_order:
  assumes "sorted_wrt P c"
  shows "sorted_wrt (\<lambda>p q. snd q < snd p \<or> (snd p = snd q \<and> P p q)) (most_common c)"
proof -
  have "sorted_wrt (\<lambda>a b. P b a) (rev c)"
    using assms by (simp add: sorted_wrt_rev)
  from sort_key_stable_order[OF this, of snd]
  show ?thesis
    by (auto simp: most_common_def sorted_wrt_rev elim!: sorted_wrt_mono_rel[rotated])
qed

lemma getitem_setitem_other: "k \<noteq> k' \<Longrightarrow> getitem (setitem d k v) k' = getitem d k'"
  by (simp add: getitem_def setitem_def update_conv')

lemma annotate_all2: "annotate e l = Inr l' \<Longrightarrow> list_all2 (annotated e) l l'"
  by (induction l arbitrary: l') (auto simp: annotated_def split: sum.splits)

lemma annotate_fails:
  "item \<in> set l \<Longrightarrow> getitem item TITLE_KEY = Inr title \<Longrightarrow> sentiments e title = Inl x \<Longrightarrow>
   \<exists>y. annotate e l = Inl y"
  by (induction l) (auto split: sum.splits)

lemma source_values_count:
  "source_values d = Inr srcs \<Longrightarrow> count_list srcs s = count_source d s"
  by (induction d arbitrary: srcs) (auto simp: count_source_def split: sum.splits)

lemma source_values_first:
  "source_values d = Inr srcs \<Longrightarrow> first_index srcs s = first_seen d s"
  by (induction d arbitrary: srcs) (auto simp: first_index_def first_seen_def split: sum.splits)

lemma source_values_length: "source_values d = Inr srcs \<Longrightarrow> length srcs = length d"
  by (induction d arbitrary: srcs) (auto split: sum.splits)

lemma counter_add_map_of:
  "map_of (counter_add c x) = (map_of c)(x \<mapsto> (case map_of c x of None \<Rightarrow> 0 | Some n \<Rightarrow> n) + 1)"
  by (simp add: counter_add_def setitem_def update_conv')

lemma Counter_map_of:
  "map_of (Counter xs) k = (if count_list xs k = 0 then None else Some (count_list xs k))"
  by (induction xs rule: rev_induct) (auto simp: Counter_snoc counter_add_map_of Counter_def)

lemma most_common_map_of: "distinct (map fst c) \<Longrightarrow> map_of (most_common c) = map_of c"
  using map_of_inject_set[of "most_common c" c]
  by (simp add: most_common_distinct most_common_set)

lemma source_stats_Inr:
  assumes "source_stats d = Inr st"
  shows "\<exists>srcs. source_values d = Inr srcs \<and> st = most_common (Counter srcs)"
proof (cases "d = []")
  case True
  with assms show ?thesis
    by (simp add: source_stats_def Counter_def most_common_def)
next
  case False
  with assms obtain srcs where sv: "source_values d = Inr srcs"
    and st: "st = dict_of_pairs (most_common (Counter srcs))"
    by (auto simp: source_stats_def split: sum.splits)
  have "distinct (map fst (most_common (Counter srcs)))"
    by (simp add: most_common_distinct Counter_distinct)
  then show ?thesis using sv st by (simp add: dict_of_pairs_distinct)
qed

lemma get_news_NewsResult:
  "get_news e args = NewsResult c d st \<Longrightarrow>
   \<exists>kw s t lg fetched. fetch_call e args = Inr (kw, s, t, lg)
     \<and> fetch_rss_news e kw s t lg = Inr fetched
     \<and> annotate e fetched = Inr d \<and> source_stats d = Inr st \<and> c = length d"
  by (auto simp: get_news_def get_news_try_def news_response_def split: sum.splits prod.splits)

lemma stats_sum: "source_stats d = Inr st \<Longrightarrow> sum_list (map snd st) = length d"
  by (auto dest!: source_stats_Inr simp: most_common_sum Counter_sum source_values_length)

lemma stats_map_of:
  "source_stats d = Inr st \<Longrightarrow>
   map_of st s = (if count_source d s = 0 then None else Some (count_source d s))"
  by (auto dest!: source_stats_Inr
      simp: most_common_map_of Counter_distinct Counter_map_of source_values_count)

lemma stats_distinct: "source_stats d = Inr st \<Longrightarrow> distinct (map fst st)"
  by (auto dest!: source_stats_Inr simp: most_common_distinct Counter_distinct)

lemma stats_order:
  assumes "source_stats d = Inr st"
  shows "sorted_wrt (\<lambda>p q. snd q < snd p \<or>
           (snd p = snd q \<and> first_seen d (fst p) < first_seen d (fst q))) st"
proof -
  from assms obtain srcs where sv: "source_values d = Inr srcs"
    and st: "st = most_common (Counter srcs)"
    by (auto dest: source_stats_Inr)
  have "sorted_wrt (\<lambda>p q. first_index srcs (fst p) < first_index srcs (fst q)) (Counter srcs)"
    using Counter_keys_order[of srcs] by (simp add: sorted_wrt_map)
  from most_common_order[OF this] show ?thesis
    by (simp add: st source_values_first[OF sv])
qed

text \<open>
  Claim C3. In every successful answer of the news query the counts of the statistics sum
  to \<open>count\<close>, \<open>count\<close> is the length of the data list, and the statistics map each source
  to the number of articles of the data list that have it.
\<close>

theorem stats_sum_to_count:
  assumes "get_news e args = NewsResult c d st"
  shows "sum_list (map snd st) = c \<and> c = length d
         \<and> map_of st s = (if count_source d s = 0 then None else Some (count_source d s))"
proof -
  from assms have st: "source_stats d = Inr st" and c: "c = length d"
    by (auto dest: get_news_NewsResult)
  show ?thesis using stats_sum[OF st] stats_map_of[OF st] c by simp
qed

theorem stats_sum_to_count_witness:
  "get_news example_env Map.empty =
     NewsResult 5 example_annotated [(''CNA'', 2), (''BBC'', 2), (''UDN'', 1)]
   \<and> sum_list (map snd [(''CNA'', 2), (''BBC'', 2), (''UDN'', 1::nat)]) = 5
   \<and> 5 = length example_annotated
   \<and> count_source example_annotated ''BBC'' = 2"
proof -
  have "count_source example_annotated ''BBC'' = 2"
    using stats_sum_to_count[OF example_get_news, of "''BBC''"]
    by (simp split: if_splits)
  then show ?thesis
    using stats_sum_to_count[OF example_get_news, of "''BBC''"] example_get_news by simp
qed

text \<open>
  The dictionary that line 82 builds is ordered by descending count, and two sources with
  the same count stand in the order in which they first occur in the article list; no
  source occurs twice.
\<close>

lemma stats_dict_order:
  assumes "get_news e args = NewsResult c d st"
  shows "sorted_wrt (\<lambda>p q. snd q < snd p \<or>
            (snd p = snd q \<and> first_seen d (fst p) < first_seen d (fst q))) st
         \<and> distinct (map fst st)"
proof -
  from assms have st: "source_stats d = Inr st"
    by (auto dest: get_news_NewsResult)
  show ?thesis using stats_order[OF st] stats_distinct[OF st] by simp
qed

lemma sort_keys_sum: "sum_list (map snd (sort_keys st)) = sum_list (map snd st)"
  for st :: "nat dict"
  by (simp add: sort_keys_def sort_key_sum)

text \<open>
  Claim C7. The statistics of the answer are not always ordered by descending count: for
  two articles of the source \<open>UDN\<close> followed by one of \<open>BBC\<close>, the dictionary of line 82 is
  \<open>UDN\<close> 2, \<open>BBC\<close> 1, as the comment of line 81 intends, but the JSON text of the answer has
  \<open>BBC\<close> 1 before \<open>UDN\<close> 2, its keys being sorted.
\<close>

theorem stats_order_lost_in_json:
  "stats (get_news (example_env\<lparr>fetch_rss_news := two_source_fetch\<rparr>) Map.empty)
     = [(''UDN'', 2), (''BBC'', 1)]
   \<and> stats (get_news_json (example_env\<lparr>fetch_rss_news := two_source_fetch\<rparr>) Map.empty)
     = [(''BBC'', 1), (''UDN'', 2)]
   \<and> \<not> sorted_wrt (\<lambda>p q. snd q \<le> snd p)
         (stats (get_news_json (example_env\<lparr>fetch_rss_news := two_source_fetch\<rparr>) Map.empty))"
proof -
  have g: "get_news (example_env\<lparr>fetch_rss_news := two_source_fetch\<rparr>) Map.empty =
      NewsResult 3
        [[(SOURCE_KEY, ''UDN''), (TITLE_KEY, ''good news''), (SENTIMENT_KEY, POSITIVE)],
         [(SOURCE_KEY, ''UDN''), (TITLE_KEY, ''bad news''), (SENTIMENT_KEY, NEGATIVE)],
         [(SOURCE_KEY, ''BBC''), (TITLE_KEY, ''plain news''), (SENTIMENT_KEY, NEUTRAL)]]
        [(''UDN'', 2), (''BBC'', 1)]"
    by (simp add: eval_defs)
  have s: "sort_keys [(''UDN'', 2::nat), (''BBC'', 1)] = [(''BBC'', 1), (''UDN'', 2)]"
    by (simp add: sort_keys_def)
  have j: "stats (get_news_json (example_env\<lparr>fetch_rss_news := two_source_fetch\<rparr>) Map.empty)
             = [(''BBC'', 1), (''UDN'', 2)]"
    unfolding get_news_json_def g using s by simp
  show ?thesis unfolding j using g by simp
qed

section \<open>Answers of the export handler\<close>




lemma str_nat_small: "n < 10 \<Longrightarrow> str_nat n = [digit_char n]"
  by simp

lemma str_nat_step: "10 \<le> n \<Longrightarrow> str_nat n = str_nat (n div 10) @ [digit_char (n mod 10)]"
  by simp

lemma digit_char_mod: "digit_char (n mod 10) = digit_char n"
  by (simp add: digit_char_def)

lemma zero_pad_2:
  assumes "n < 100"
  shows "zero_pad 2 n = [digit_char (n div 10), digit_char (n mod 10)]"
proof (cases "n < 10")
  case True
  then show ?thesis
    by (simp add: zero_pad_def digit_char_def del: str_nat.simps add: str_nat_small)
next
  case False
  with assms have "n div 10 < 10" by simp
  with False show ?thesis
    by (simp add: zero_pad_def str_nat_step str_nat_small del: str_nat.simps)
qed

lemma digit_char_zero: "digit_char 0 = CHR ''0''"
  by (simp add: digit_char_def)

lemma str_nat_4:
  assumes "n < 10000"
  shows "replicate (4 - length (str_nat n)) (digit_char 0) @ str_nat n =
    [digit_char (n div 1000), digit_char (n div 100 mod 10), digit_char (n div 10 mod 10),
     digit_char (n mod 10)]"
proof -
  have d2: "n div 10 div 10 = n div 100" and d3: "n div 100 div 10 = n div 1000"
    by (simp_all add: div_mult2_eq)
  consider "n < 10" | "10 \<le> n" "n < 100" | "100 \<le> n" "n < 1000" | "1000 \<le> n" "n < 10000"
    using assms by linarith
  then show ?thesis
  proof cases
    case 1
    then have "str_nat n = [digit_char (n mod 10)]" "n div 10 = 0" "n div 100 = 0" "n div 1000 = 0"
      by (simp_all add: str_nat_small del: str_nat.simps)
    then show ?thesis by (simp add: numeral_3_eq_3 del: str_nat.simps)
  next
    case 2
    then have "n div 10 < 10" by simp
    with 2 have "str_nat n = [digit_char (n div 10 mod 10), digit_char (n mod 10)]"
      "n div 100 = 0" "n div 1000 = 0"
      by (simp_all add: str_nat_step str_nat_small del: str_nat.simps)
    then show ?thesis by (simp add: numeral_2_eq_2 del: str_nat.simps)
  next
    case 3
    then have "10 \<le> n div 10" "n div 100 < 10" by simp_all
    with 3 have "str_nat n =
        [digit_char (n div 100 mod 10), digit_char (n div 10 mod 10), digit_char (n mod 10)]"
      "n div 1000 = 0"
      by (simp_all add: str_nat_step[of n] str_nat_step[of "n div 10"] str_nat_small d2
            del: str_nat.simps)
    then show ?thesis by (simp del: str_nat.simps)
  next
    case 4
    then have "10 \<le> n div 10" "10 \<le> n div 100" "n div 1000 < 10" by simp_all
    with 4 have "str_nat n =
        [digit_char (n div 1000), digit_char (n div 100 mod 10), digit_char (n div 10 mod 10),
         digit_char (n mod 10)]"
      by (simp add: str_nat_step[of n] str_nat_step[of "n div 10"] str_nat_step[of "n div 100"]
            str_nat_small d2 d3 del: str_nat.simps)
    then show ?thesis by (simp del: str_nat.simps)
  qed
qed

lemma zero_pad_4:
  "n < 10000 \<Longrightarrow> zero_pad 4 n =
    [digit_char (n div 1000), digit_char (n div 100 mod 10), digit_char (n div 10 mod 10),
     digit_char (n mod 10)]"
  using str_nat_4[of n] by (simp add: zero_pad_def digit_char_zero del: str_nat.simps)

lemma strftime_Ymd_digits:
  "year t < 10000 \<Longrightarrow> month t < 100 \<Longrightarrow> day t < 100 \<Longrightarrow>
   strftime_Ymd t =
     map digit_char
       [year t div 1000, year t div 100 mod 10, year t div 10 mod 10, year t mod 10,
        month t div 10, month t mod 10, day t div 10, day t mod 10]"
  by (simp add: strftime_Ymd_def zero_pad_4 zero_pad_2 del: str_nat.simps)

text \<open>
  Claim C5. When the decoded body is a non-empty list and the spreadsheet writer succeeds,
  the export handler answers with status 200 and the written bytes as an attachment with
  the spreadsheet MIME type, named \<open>selected_news_\<close>, the date of the clock as
  \<^verbatim>\<open>%Y%m%d\<close>, \<open>.xlsx\<close>; for a date of the calendar that is four digits of the year, two
  of the month and two of the day.
\<close>

theorem export_returns_dated_attachment:
  assumes "rows \<noteq> []" and "to_excel e (JArray rows) = Inr output"
  shows "download_selected e (Inr (JArray rows)) =
           SendFile output XLSX_MIMETYPE True
             (''selected_news_'' @ strftime_Ymd (now e) @ ''.xlsx'')
         \<and> status_code (download_selected e (Inr (JArray rows))) = 200
         \<and> (year (now e) < 10000 \<and> month (now e) < 100 \<and> day (now e) < 100 \<longrightarrow>
              strftime_Ymd (now e) =
                map digit_char
                  [year (now e) div 1000, year (now e) div 100 mod 10,
                   year (now e) div 10 mod 10, year (now e) mod 10,
                   month (now e) div 10, month (now e) mod 10,
                   day (now e) div 10, day (now e) mod 10])"
  using assms strftime_Ymd_digits[of "now e"]
  by (simp add: download_selected_def download_selected_try_def)

theorem export_returns_dated_attachment_witness:
  "[JObject [(''title'', JString ''A''), (''source'', JString ''X'')]] \<noteq> []
   \<and> to_excel example_env (JArray [JObject [(''title'', JString ''A''), (''source'', JString ''X'')]])
       = Inr ''PK''
   \<and> download_selected example_env
        (Inr (JArray [JObject [(''title'', JString ''A''), (''source'', JString ''X'')]]))
       = SendFile ''PK'' ''application/vnd.openxmlformats-officedocument.spreadsheetml.sheet''
           True ''selected_news_20261104.xlsx''"
proof -
  have a: "[JObject [(''title'', JString ''A''), (''source'', JString ''X'')]] \<noteq> []" by simp
  have b: "to_excel example_env
             (JArray [JObject [(''title'', JString ''A''), (''source'', JString ''X'')]]) = Inr ''PK''"
    by (simp add: example_env_fields)
  have c: "strftime_Ymd (now example_env) = ''20261104''"
    by (simp add: example_env_fields strftime_Ymd_def zero_pad_def digit_char_def)
  show ?thesis
    using export_returns_dated_attachment[OF a b] a b
    by (simp add: c XLSX_MIMETYPE_def)
qed

section \<open>Complete answers\<close>

lemma annotate_length: "annotate e l = Inr l' \<Longrightarrow> length l' = length l"
  by (induction l arbitrary: l') (auto split: sum.splits)

lemma get_news_dichotomy:
  "complete_news e args (get_news e args) \<longleftrightarrow> \<not> is_error_object (get_news e args) 500"
  by (auto simp: complete_news_def is_error_object_def get_news_def get_news_try_def
      news_response_def annotate_all2 annotate_length split: sum.splits prod.splits)

lemma download_selected_dichotomy:
  "is_error_object (download_selected e get_json) 400
   \<or> is_error_object (download_selected e get_json) 500
   \<or> complete_export e get_json (download_selected e get_json)"
  by (auto simp: complete_export_def is_error_object_def download_selected_def
      download_selected_try_def split: sum.splits)

lemma get_news_sentiment_failure:
  assumes "fetch_call e args = Inr (keyword, start_date, end_date, logic)"
    and "fetch_rss_news e keyword start_date end_date logic = Inr fetched"
    and "item \<in> set fetched" and "getitem item TITLE_KEY = Inr title"
    and "sentiments e title = Inl x"
  shows "is_error_object (get_news e args) 500"
proof -
  from annotate_fails[OF assms(3,4,5)] obtain y where "annotate e fetched = Inl y" by blast
  with assms(1,2) show ?thesis
    by (simp add: is_error_object_def get_news_def get_news_try_def news_response_def)
qed

lemma index_cases:
  "index e = Text NOT_BUILT_MESSAGE 404
   \<or> index e = SendFromDirectory (DIST_FOLDER e) ''index.html''"
  by (simp add: index_def)

text \<open>
  Claim C6. The news query answers with a complete payload or with the error object and
  status 500, never both and never anything between; when the scorer fails on the title of
  any one fetched article, the answer is the error object with status 500. The export
  answers with the error object (status 400 or 500) or with the complete attachment. The
  index page, which has no JSON answer, is its whole 404 text or the whole file handed to
  \<^verbatim>\<open>send_from_directory\<close>.
\<close>

theorem no_partial_results:
  "(complete_news e args (get_news e args) \<longleftrightarrow> \<not> is_error_object (get_news e args) 500)
   \<and> (fetch_call e args = Inr (keyword, start_date, end_date, logic)
        \<and> fetch_rss_news e keyword start_date end_date logic = Inr fetched
        \<and> item \<in> set fetched \<and> getitem item TITLE_KEY = Inr title
        \<and> sentiments e title = Inl x
      \<longrightarrow> is_error_object (get_news e args) 500)
   \<and> (is_error_object (download_selected e get_json) 400
        \<or> is_error_object (download_selected e get_json) 500
        \<or> complete_export e get_json (download_selected e get_json))
   \<and> (index e = Text NOT_BUILT_MESSAGE 404
        \<or> index e = SendFromDirectory (DIST_FOLDER e) ''index.html'')"
  using get_news_dichotomy[of e args] download_selected_dichotomy[of e get_json]
    get_news_sentiment_failure[of e args keyword start_date end_date logic fetched item title x]
    index_cases[of e]
  by blast

theorem no_partial_results_witness:
  "fetch_call example_env [''keyword'' \<mapsto> ''garbled''] = Inr (''garbled'', 739917, 739924, ''OR'')
   \<and> fetch_rss_news example_env ''garbled'' 739917 739924 ''OR'' =
        Inr [[(SOURCE_KEY, ''CNA''), (TITLE_KEY, ''good news'')],
             [(SOURCE_KEY, ''BBC''), (TITLE_KEY, ''garbled'')]]
   \<and> [(SOURCE_KEY, ''BBC''), (TITLE_KEY, ''garbled'')]
        \<in> set [[(SOURCE_KEY, ''CNA''), (TITLE_KEY, ''good news'')],
                [(SOURCE_KEY, ''BBC''), (TITLE_KEY, ''garbled'')]]
   \<and> getitem [(SOURCE_KEY, ''BBC''), (TITLE_KEY, ''garbled'')] TITLE_KEY = Inr ''garbled''
   \<and> sentiments example_env ''garbled'' = Inl (Raised ''cannot score'')
   \<and> is_error_object (get_news example_env [''keyword'' \<mapsto> ''garbled'']) 500
   \<and> get_news example_env [''keyword'' \<mapsto> ''garbled''] = ErrorResult ''cannot score'' 500"
proof -
  have a: "fetch_call example_env [''keyword'' \<mapsto> ''garbled'']
             = Inr (''garbled'', 739917, 739924, ''OR'')"
    by (simp add: eval_defs)
  have b: "fetch_rss_news example_env ''garbled'' 739917 739924 ''OR'' =
        Inr [[(SOURCE_KEY, ''CNA''), (TITLE_KEY, ''good news'')],
             [(SOURCE_KEY, ''BBC''), (TITLE_KEY, ''garbled'')]]"
    by (simp add: eval_defs)
  have c: "[(SOURCE_KEY, ''BBC''), (TITLE_KEY, ''garbled'')]
        \<in> set [[(SOURCE_KEY, ''CNA''), (TITLE_KEY, ''good news'')],
                [(SOURCE_KEY, ''BBC''), (TITLE_KEY, ''garbled'')]]"
    by simp
  have d: "getitem [(SOURCE_KEY, ''BBC''), (TITLE_KEY, ''garbled'')] TITLE_KEY = Inr ''garbled''"
    by (simp add: getitem_def keys_distinct)
  have f: "sentiments example_env ''garbled'' = Inl (Raised ''cannot score'')"
    by (simp add: eval_defs)
  have g: "get_news example_env [''keyword'' \<mapsto> ''garbled''] = ErrorResult ''cannot score'' 500"
    by (simp add: eval_defs)
  from no_partial_results
    [where e = example_env and args = "[''keyword'' \<mapsto> ''garbled'']"
       and keyword = "''garbled''" and start_date = 739917 and end_date = 739924
       and logic = "''OR''"
       and fetched = "[[(SOURCE_KEY, ''CNA''), (TITLE_KEY, ''good news'')],
             [(SOURCE_KEY, ''BBC''), (TITLE_KEY, ''garbled'')]]"
       and item = "[(SOURCE_KEY, ''BBC''), (TITLE_KEY, ''garbled'')]"
       and title = "''garbled''" and x = "Raised ''cannot score''"]
  have "is_error_object (get_news example_env [''keyword'' \<mapsto> ''garbled'']) 500"
    using a b c d f by blast
  then show ?thesis using a b c d f g by blast
qed

section \<open>Answers of the static asset server\<close>

text \<open>
  Claim C9. When the build directory does not exist, \<^verbatim>\<open>index\<close> answers with status 404 and
  the text that asks to build the frontend first (it contains \<^verbatim>\<open>npm run build\<close>); when the
  directory exists, it serves \<open>index.html\<close> from that directory.
\<close>

theorem index_without_build:
  "(\<not> path_exists e (DIST_FOLDER e) \<longrightarrow> index e = Text NOT_BUILT_MESSAGE 404)
   \<and> (path_exists e (DIST_FOLDER e) \<longrightarrow> index e = SendFromDirectory (DIST_FOLDER e) ''index.html'')
   \<and> (\<exists>before after. NOT_BUILT_MESSAGE = before @ ''npm run build'' @ after)"
proof -
  have "NOT_BUILT_MESSAGE =
     ([CHR 0xE5, CHR 0x89, CHR 0x8D, CHR 0xE7, CHR 0xAB, CHR 0xAF, CHR 0xE6, CHR 0xAA, CHR 0x94,
      CHR 0xE6, CHR 0xA1, CHR 0x88, CHR 0xE5, CHR 0xB0, CHR 0x9A, CHR 0xE6, CHR 0x9C, CHR 0xAA,
      CHR 0xE5, CHR 0xBB, CHR 0xBA, CHR 0xE7, CHR 0xBD, CHR 0xAE]
     @ '' (frontend/dist not found)''
     @ [CHR 0xE3, CHR 0x80, CHR 0x82, CHR 0xE8, CHR 0xAB, CHR 0x8B, CHR 0xE5, CHR 0x9C, CHR 0xA8,
        CHR 0x20, CHR 0x27] @ ''frontend'' @ [CHR 0x27, CHR 0x20]
     @ [CHR 0xE7, CHR 0x9B, CHR 0xAE, CHR 0xE9, CHR 0x8C, CHR 0x84, CHR 0xE4, CHR 0xB8, CHR 0x8B,
        CHR 0xE5, CHR 0x9F, CHR 0xB7, CHR 0xE8, CHR 0xA1, CHR 0x8C, CHR 0x20, CHR 0x27])
     @ ''npm run build'' @ [CHR 0x27, CHR 0xE3, CHR 0x80, CHR 0x82]"
    by (simp add: NOT_BUILT_MESSAGE_def)
  then have "\<exists>before after. NOT_BUILT_MESSAGE = before @ ''npm run build'' @ after"
    by blast
  then show ?thesis by (simp add: index_def)
qed

theorem index_without_build_witness:
  "\<not> path_exists (example_env\<lparr>path_exists := \<lambda>p. False\<rparr>)
        (DIST_FOLDER (example_env\<lparr>path_exists := \<lambda>p. False\<rparr>))
   \<and> index (example_env\<lparr>path_exists := \<lambda>p. False\<rparr>) = Text NOT_BUILT_MESSAGE 404
   \<and> path_exists example_env (DIST_FOLDER example_env)
   \<and> index example_env = SendFromDirectory ''/srv/app/frontend/dist'' ''index.html''"
proof -
  have a: "\<not> path_exists (example_env\<lparr>path_exists := \<lambda>p. False\<rparr>)
        (DIST_FOLDER (example_env\<lparr>path_exists := \<lambda>p. False\<rparr>))" by simp
  have b: "path_exists example_env (DIST_FOLDER example_env)"
    by (simp add: example_dist_folder example_env_fields)
  show ?thesis
    using index_without_build[of "example_env\<lparr>path_exists := \<lambda>p. False\<rparr>"]
      index_without_build[of example_env] a b
    by (simp add: example_dist_folder)
qed

end
